theory Spec2Isabelle
  imports Main "HOL-Library.Sublist" "HOL-Library.AList"
begin

section \<open>Python strings\<close>

text \<open>
  A Python \<open>str\<close> is modelled as a HOL \<open>string\<close>: one \<open>char\<close> per code point, which
  covers the code points below 256. All characters the program itself tests for are ASCII.
\<close>

text \<open>\<open>kw in text\<close> on two strings: \<open>kw\<close> occurs as a contiguous substring of \<open>text\<close>.\<close>

fun py_in :: "string \<Rightarrow> string \<Rightarrow> bool" where
  "py_in kw [] = (kw = [])"
| "py_in kw (c # cs) = (prefix kw (c # cs) \<or> py_in kw cs)"

section \<open>file\_watcher.py and security.py: the extension tables\<close>

text \<open>\<open>ContentWatcher.__init__\<close>: \<open>self.supported_extensions\<close>.\<close>

definition supported_extensions :: "string list" where
  "supported_extensions =
     [''.pdf'', ''.png'', ''.jpg'', ''.jpeg'', ''.gif'', ''.webp'',
      ''.mp4'', ''.webm'', ''.doc'', ''.docx'', ''.txt'', ''.md'']"

text \<open>\<open>InputValidator.ALLOWED_EXTENSIONS\<close>.\<close>

definition ALLOWED_EXTENSIONS :: "string list" where
  "ALLOWED_EXTENSIONS =
     [''.pdf'', ''.png'', ''.jpg'', ''.jpeg'', ''.gif'', ''.webp'',
      ''.mp4'', ''.webm'', ''.doc'', ''.docx'', ''.txt'', ''.md'',
      ''.csv'', ''.json'', ''.xml'', ''.zip'', ''.tar'', ''.gz'']"

section \<open>classifier.py\<close>

record ResourceClassifier =
  openai_api_key :: "string option"
  anthropic_api_key :: "string option"
  category_keywords :: "(string \<times> string list) list"
  tag_keywords :: "(string \<times> string list) list"

text \<open>
  \<open>ResourceClassifier.__init__\<close>. The two keys are read from the process environment
  (\<open>os.getenv\<close>, here the function \<open>getenv\<close>); the two tables are literals. A Python dict
  iterates in insertion order, so the tables are association lists in the order written.
\<close>

definition ResourceClassifier_init :: "(string \<Rightarrow> string option) \<Rightarrow> ResourceClassifier" where
  "ResourceClassifier_init getenv =
     \<lparr> openai_api_key = getenv ''OPENAI_API_KEY'',
       anthropic_api_key = getenv ''ANTHROPIC_API_KEY'',
       category_keywords =
         [(''Blue Team'',
            [''defense'', ''defensive'', ''siem'', ''soc'', ''monitoring'', ''detection'',
             ''incident response'', ''forensics'', ''blue team'', ''splunk'', ''elk'',
             ''security operations'', ''threat detection'', ''ids'', ''ips'', ''firewall'',
             ''hardening'', ''compliance'', ''audit'', ''defender'', ''edr'', ''xdr'']),
          (''Red Team'',
            [''offensive'', ''penetration'', ''pentest'', ''exploit'', ''attack'',
             ''vulnerability'', ''metasploit'', ''kali'', ''red team'', ''social engineering'',
             ''phishing'', ''payload'', ''reverse shell'', ''privilege escalation'',
             ''lateral movement'', ''persistence'', ''evasion'', ''bypass'', ''crack'']),
          (''Threat Intelligence'',
            [''intelligence'', ''threat intel'', ''apt'', ''indicators'', ''ioc'',
             ''threat actor'', ''campaign'', ''attribution'', ''malware analysis'',
             ''threat hunting'', ''osint'', ''reconnaissance'', ''mitre att&ck'',
             ''threat landscape'', ''adversary'', ''ttp''])],
       tag_keywords =
         [(''virtual-machine'', [''vm'', ''virtual machine'', ''virtualbox'', ''vmware'', ''ova'', ''ovf'']),
          (''cheatsheet'', [''cheat sheet'', ''cheatsheet'', ''quick reference'', ''commands'']),
          (''poster'', [''poster'', ''infographic'', ''visual guide'', ''reference card'']),
          (''tool'', [''tool'', ''software'', ''utility'', ''application'', ''framework'']),
          (''framework'', [''framework'', ''methodology'', ''standard'', ''model'']),
          (''guide'', [''guide'', ''tutorial'', ''walkthrough'', ''handbook'', ''manual'']),
          (''training'', [''training'', ''course'', ''learning'', ''education'', ''ctf'']),
          (''certification'', [''certification'', ''cert'', ''exam'', ''qualification'']),
          (''documentation'', [''documentation'', ''docs'', ''reference'', ''specification'']),
          (''research'', [''research'', ''paper'', ''whitepaper'', ''study'', ''analysis''])] \<rparr>"

text \<open>The result dict \<open>{'category': ..., 'tags': ..., 'confidence': ...}\<close>.\<close>

record classification =
  category :: "string option"
  tags :: "string list"
  confidence :: string

text \<open>\<open>sum(1 for keyword in keywords if keyword in text)\<close>.\<close>

definition keyword_score :: "string list \<Rightarrow> string \<Rightarrow> nat" where
  "keyword_score keywords text = length (filter (\<lambda>keyword. py_in keyword text) keywords)"

text \<open>
  The builtin \<open>max(iterable, key=f)\<close>: the running maximum is replaced only by a strictly
  greater element, so the first of several maximal elements is returned. On an empty
  iterable it raises; \<open>_classify_keywords\<close> guards the call, and \<open>None\<close> stands for that case.
\<close>

fun py_max_from :: "('a \<Rightarrow> nat) \<Rightarrow> 'a \<Rightarrow> 'a list \<Rightarrow> 'a" where
  "py_max_from f best [] = best"
| "py_max_from f best (x # xs) = py_max_from f (if f best < f x then x else best) xs"

definition py_max :: "('a \<Rightarrow> nat) \<Rightarrow> 'a list \<Rightarrow> 'a option" where
  "py_max f xs = (case xs of [] \<Rightarrow> None | x # rest \<Rightarrow> Some (py_max_from f x rest))"

text \<open>
  \<open>category_scores.get\<close> used as the key function of \<open>max\<close>. It is only applied to keys of
  \<open>category_scores\<close> itself, so the default branch is never taken.
\<close>

definition scores_get :: "(string \<times> nat) list \<Rightarrow> string \<Rightarrow> nat" where
  "scores_get category_scores k = (case map_of category_scores k of Some s \<Rightarrow> s | None \<Rightarrow> 0)"

text \<open>\<open>ResourceClassifier._classify_keywords\<close>.\<close>

definition classify_keywords :: "ResourceClassifier \<Rightarrow> string \<Rightarrow> classification" where
  "classify_keywords self text =
     (let category_scores =
            filter (\<lambda>(c, score). 0 < score)
              (map (\<lambda>(c, keywords). (c, keyword_score keywords text)) (category_keywords self));
          primary_category =
            (if category_scores \<noteq> [] then py_max (scores_get category_scores) (map fst category_scores)
             else None);
          tags0 = map fst (filter (\<lambda>(tag, keywords). \<exists>keyword \<in> set keywords. py_in keyword text)
                              (tag_keywords self));
          tags1 = (case primary_category of
                     None \<Rightarrow> tags0
                   | Some pc \<Rightarrow>
                       if py_in ''Blue Team'' pc then tags0 @ [''defensive'']
                       else if py_in ''Red Team'' pc then tags0 @ [''offensive'']
                       else if py_in ''Intelligence'' pc then tags0 @ [''intelligence'']
                       else tags0)
      in \<lparr> category = primary_category,
           tags = tags1,
           confidence = (if category_scores \<noteq> [] then ''medium'' else ''low'') \<rparr>)"

text \<open>
  The keyword-phrase substring count of one category: the score the loop of
  \<open>_classify_keywords\<close> computes for it.
\<close>

definition category_score :: "ResourceClassifier \<Rightarrow> string \<Rightarrow> string \<Rightarrow> nat" where
  "category_score self c text =
     (case map_of (category_keywords self) c of
        Some keywords \<Rightarrow> keyword_score keywords text
      | None \<Rightarrow> 0)"

section \<open>security.py\<close>

text \<open>Exceptions are values; the argument is the message.\<close>

datatype error =
  ValueError string
| TypeError string
| IntegrityError string
| OperationalError string
| ProgrammingError string

subsection \<open>Builtins used by the validator\<close>

text \<open>
  \<open>str.strip()\<close> removes the characters for which \<open>str.isspace\<close> holds from both ends.
  Below code point 256 these are 9 to 13, 28 to 32, 133 and 160.
\<close>

definition py_isspace :: "char \<Rightarrow> bool" where
  "py_isspace c = (of_char c \<in> {9, 10, 11, 12, 13, 28, 29, 30, 31, 32, 133, 160 :: nat})"

definition py_strip :: "string \<Rightarrow> string" where
  "py_strip s = rev (dropWhile py_isspace (rev (dropWhile py_isspace s)))"

text \<open>\<open>s.replace(c, rep)\<close> for a one-character pattern \<open>c\<close>.\<close>

definition replace_char :: "char \<Rightarrow> string \<Rightarrow> string \<Rightarrow> string" where
  "replace_char c rep s = concat (map (\<lambda>x. if x = c then rep else [x]) s)"

text \<open>
  \<open>html.escape(s)\<close> with the default \<open>quote=True\<close>: five replacements, the ampersand
  first.
\<close>

definition html_escape :: "string \<Rightarrow> string" where
  "html_escape s =
     replace_char (CHR 0x27) ''&#x27;''
       (replace_char (CHR 0x22) ''&quot;''
         (replace_char CHR ''>'' ''&gt;''
           (replace_char CHR ''<'' ''&lt;''
             (replace_char CHR ''&'' ''&amp;'' s))))"

text \<open>
  \<open>str.lower()\<close> below code point 256: the ASCII capitals and the Latin-1 capitals
  (192 to 222 except the multiplication sign 215) move up by 32.
\<close>

definition py_lower_char :: "char \<Rightarrow> char" where
  "py_lower_char c =
     (let n = of_char c :: nat
      in if (65 \<le> n \<and> n \<le> 90) \<or> (192 \<le> n \<and> n \<le> 222 \<and> n \<noteq> 215) then char_of (n + 32) else c)"

definition py_lower :: "string \<Rightarrow> string" where
  "py_lower s = map py_lower_char s"




subsection \<open>InputValidator\<close>

definition MAX_URL_LENGTH :: nat where
  "MAX_URL_LENGTH = 2000"

definition ALLOWED_URL_SCHEMES :: "string list" where
  "ALLOWED_URL_SCHEMES = [''http'', ''https'', ''ftp'', ''sftp'']"

text \<open>
  \<open>InputValidator.sanitize_string\<close> on a \<open>str\<close> value. \<open>max_length = None\<close> is \<open>None\<close>;
  the test \<open>if max_length and ...\<close> also skips a limit of 0.
\<close>

definition sanitize_string :: "string \<Rightarrow> nat option \<Rightarrow> bool \<Rightarrow> string" where
  "sanitize_string value0 max_length allow_html =
     (let value1 = py_strip value0;
          value2 = (if \<not> allow_html then html_escape value1 else value1)
      in case max_length of
           None \<Rightarrow> value2
         | Some m \<Rightarrow> if m \<noteq> 0 \<and> length value2 > m then take m value2 else value2)"

text \<open>
  \<open>InputValidator.validate_url\<close>. \<open>urllib.parse.urlparse\<close> is a library function: the
  model takes as a parameter what it yields on the sanitized URL, either the \<open>scheme\<close>
  component or, when it raises, the message of the exception. Whatever is raised inside
  the \<open>try\<close> block is re-raised as \<open>ValueError("Invalid URL: ...")\<close>.
\<close>

definition dangerous_patterns :: "string list" where
  "dangerous_patterns = [''javascript:'', ''data:'', ''vbscript:'', ''file:'']"

definition validate_url :: "(string \<Rightarrow> string + string) \<Rightarrow> string \<Rightarrow> error + string" where
  "validate_url urlparse url0 =
     (if url0 = [] then Inr []
      else
        let url = sanitize_string url0 (Some MAX_URL_LENGTH) False
        in case urlparse url of
             Inl msg \<Rightarrow> Inl (ValueError (''Invalid URL: '' @ msg))
           | Inr scheme \<Rightarrow>
               if scheme \<noteq> [] \<and> py_lower scheme \<notin> set ALLOWED_URL_SCHEMES
               then Inl (ValueError (''Invalid URL: URL scheme '' @ [CHR 0x27] @ scheme @ [CHR 0x27] @ '' not allowed''))
               else
                 (case find (\<lambda>pattern. py_in pattern (py_lower url)) dangerous_patterns of
                    Some pattern \<Rightarrow>
                      Inl (ValueError (''Invalid URL: Potentially dangerous URL pattern detected: '' @ pattern))
                  | None \<Rightarrow> Inr url))"

text \<open>
  The \<open>scheme\<close> component as \<open>urllib.parse.urlsplit\<close> computes it: leading characters up
  to the space are stripped, tab, carriage return and line feed are removed, and the text
  before the first colon is the scheme when it starts with an ASCII letter and consists
  of letters, digits, \<open>+\<close>, \<open>-\<close> and \<open>.\<close> only. It is used to evaluate \<open>validate_url\<close> on
  examples; the checks \<open>urlsplit\<close> makes on a bracketed host are not part of it.
\<close>

definition ascii_alpha :: "char \<Rightarrow> bool" where
  "ascii_alpha c = (let n = of_char c :: nat in (65 \<le> n \<and> n \<le> 90) \<or> (97 \<le> n \<and> n \<le> 122))"

definition ascii_digit :: "char \<Rightarrow> bool" where
  "ascii_digit c = (let n = of_char c :: nat in 48 \<le> n \<and> n \<le> 57)"

definition urlsplit_scheme :: "string \<Rightarrow> string + string" where
  "urlsplit_scheme url0 =
     (let url1 = dropWhile (\<lambda>c. (of_char c :: nat) \<le> 32) url0;
          url = filter (\<lambda>c. (of_char c :: nat) \<notin> {9, 10, 13}) url1;
          head = takeWhile (\<lambda>c. c \<noteq> CHR '':'') url
      in if CHR '':'' \<in> set url \<and> head \<noteq> [] \<and> ascii_alpha (hd head) \<and>
            (\<forall>c \<in> set head. ascii_alpha c \<or> ascii_digit c \<or> c \<in> {CHR ''+'', CHR ''-'', CHR ''.''})
         then Inr (py_lower head) else Inr [])"

text \<open>
  \<open>InputValidator.sanitize_filename\<close>. The character class of the regular expression
  \<open>[^a-zA-Z0-9._-]\<close> is the complement of \<open>safe_char\<close>.
\<close>

definition safe_char :: "char \<Rightarrow> bool" where
  "safe_char c = (ascii_alpha c \<or> ascii_digit c \<or> c \<in> {CHR ''.'', CHR ''_'', CHR ''-''})"


text \<open>
  The value of \<open>filename\<close> when \<open>sanitize_filename\<close> reaches its emptiness test, as a
  function of the final path component: the two rewriting steps of the source on their own.
\<close>

definition cleaned_name :: "string \<Rightarrow> string" where
  "cleaned_name base =
     (let filename2 = map (\<lambda>c. if safe_char c then c else CHR ''_'') base
      in if prefix ''.'' filename2 then CHR ''_'' # drop 1 filename2 else filename2)"


section \<open>database.py\<close>

subsection \<open>Values, rows and the database\<close>

text \<open>
  A value stored in a column or bound to a \<open>?\<close> placeholder: \<open>None\<close> is \<open>NULL\<close>, an \<open>int\<close>
  an INTEGER, a \<open>str\<close> a TEXT and a \<open>bytes\<close> object a BLOB.
\<close>

type_synonym bytes = "char list"

datatype sql_value = SNull | SInt int | SText string | SBlob bytes

text \<open>
  A row is what \<open>dict(row)\<close> gives: the columns in the order of the table, each with its
  value.
\<close>

type_synonym row = "(string \<times> sql_value) list"

text \<open>The columns of \<open>CREATE TABLE resources\<close>, in order.\<close>

definition resource_columns :: "string list" where
  "resource_columns =
     [''id'', ''title'', ''description'', ''file_path'', ''file_data'', ''file_type'',
      ''file_size'', ''file_hash'', ''category'', ''tags'', ''url'', ''resource_type'',
      ''thumbnail_path'', ''classifier_used'', ''classification_confidence'',
      ''created_at'', ''updated_at'']"

definition col :: "row \<Rightarrow> string \<Rightarrow> sql_value" where
  "col r c = (case map_of r c of Some v \<Rightarrow> v | None \<Rightarrow> SNull)"

text \<open>
  The state of the database file: the rows of \<open>resources\<close>, the counter behind
  \<open>AUTOINCREMENT\<close> (the largest id ever given out) and the rows of the index
  \<open>resources_fts\<close>, each a rowid with the indexed \<open>(title, description, tags, category)\<close>.
  The \<open>categories\<close> table is not modelled: no operation on resources reads it.
\<close>

type_synonym fts_row = "sql_value \<times> sql_value \<times> sql_value \<times> sql_value"

record database =
  resources :: "row list"
  sqlite_sequence :: int
  resources_fts :: "(int \<times> fts_row) list"

text \<open>\<open>Database.init_db\<close> on a new file: both tables exist and are empty.\<close>

definition init_db :: database where
  "init_db = \<lparr> resources = [], sqlite_sequence = 0, resources_fts = [] \<rparr>"

text \<open>The values a trigger copies into the index: \<open>new.title, new.description, new.tags, new.category\<close>.\<close>

definition fts_projection :: "row \<Rightarrow> fts_row" where
  "fts_projection r = (col r ''title'', col r ''description'', col r ''tags'', col r ''category'')"

subsection \<open>The INSERT statement of \<open>add_resource\<close>\<close>

text \<open>
  \<open>INSERT INTO resources (title, ..., classification_confidence) VALUES (?, ..., ?)\<close> with
  the fourteen bound values \<open>vals\<close>, as SQLite executes it on this schema.
  \<^item> A storage fault of the engine (disk, lock), given from outside as \<open>fault\<close>, is raised.
  \<^item> \<open>title\<close> and \<open>resource_type\<close> are \<open>NOT NULL\<close>; \<open>file_hash\<close> is \<open>UNIQUE\<close>, and \<open>NULL\<close>
    never collides. A violation raises \<open>IntegrityError\<close> and changes nothing.
  \<^item> The id is one more than the largest id ever used; \<open>created_at\<close> and \<open>updated_at\<close>
    both default to \<open>CURRENT_TIMESTAMP\<close>, evaluated once for the statement.
  \<^item> The trigger \<open>resources_ai\<close> inserts the index row of the new id.
  The result is the new state and \<open>cursor.lastrowid\<close>; \<open>ts\<close> is the value of
  \<open>CURRENT_TIMESTAMP\<close>.
\<close>

definition row_id :: "row \<Rightarrow> int" where
  "row_id r = (case col r ''id'' of SInt i \<Rightarrow> i | _ \<Rightarrow> 0)"

definition next_id :: "database \<Rightarrow> int" where
  "next_id db = 1 + fold max (map row_id (resources db)) (max 0 (sqlite_sequence db))"

text \<open>The row the statement stores under the id \<open>i\<close>.\<close>

definition new_row :: "string \<Rightarrow> int \<Rightarrow> (string \<times> sql_value) list \<Rightarrow> row" where
  "new_row ts i vals =
     map (\<lambda>c. (c, if c = ''id'' then SInt i
                  else if c = ''created_at'' \<or> c = ''updated_at'' then SText ts
                  else col vals c)) resource_columns"

definition sqlite_insert ::
  "error option \<Rightarrow> string \<Rightarrow> database \<Rightarrow> (string \<times> sql_value) list \<Rightarrow> error + (database \<times> int)" where
  "sqlite_insert fault ts db vals =
     (case fault of
        Some e \<Rightarrow> Inl e
      | None \<Rightarrow>
          if col vals ''title'' = SNull
          then Inl (IntegrityError ''NOT NULL constraint failed: resources.title'')
          else if col vals ''resource_type'' = SNull
          then Inl (IntegrityError ''NOT NULL constraint failed: resources.resource_type'')
          else if col vals ''file_hash'' \<noteq> SNull \<and>
                  (\<exists>r \<in> set (resources db). col r ''file_hash'' = col vals ''file_hash'')
          then Inl (IntegrityError ''UNIQUE constraint failed: resources.file_hash'')
          else
            let new_id = next_id db;
                new = new_row ts new_id vals
            in Inr (db \<lparr> resources := resources db @ [new],
                         sqlite_sequence := new_id,
                         resources_fts := resources_fts db @ [(new_id, fts_projection new)] \<rparr>,
                    new_id))"

subsection \<open>\<open>Database.add_resource\<close>\<close>

text \<open>
  The arguments of \<open>add_resource\<close>; \<open>None\<close> is Python's \<open>None\<close>. \<open>tags\<close> is a string or a
  list of strings. The defaults of the signature are in \<open>default_args\<close>.
\<close>

datatype py_tags = TagsNone | TagsStr string | TagsList "string list"

record add_args =
  arg_title :: "string option"
  arg_description :: "string option"
  arg_file_path :: "string option"
  arg_file_data :: "bytes option"
  arg_file_type :: "string option"
  arg_file_size :: "int option"
  arg_category :: "string option"
  arg_tags :: py_tags
  arg_url :: "string option"
  arg_resource_type :: "string option"
  arg_thumbnail_path :: "string option"
  arg_classifier_used :: "string option"
  arg_classification_confidence :: "string option"

definition default_args :: "string option \<Rightarrow> add_args" where
  "default_args title =
     \<lparr> arg_title = title, arg_description = Some [], arg_file_path = None, arg_file_data = None,
       arg_file_type = None, arg_file_size = Some 0, arg_category = Some [], arg_tags = TagsStr [],
       arg_url = Some [], arg_resource_type = Some ''file'', arg_thumbnail_path = None,
       arg_classifier_used = None, arg_classification_confidence = None \<rparr>"

text \<open>
  What \<open>add_resource\<close> reads from outside the database: the files on disk (\<open>None\<close> where
  \<open>Path(p).exists()\<close> is false, the content otherwise), \<open>hashlib.md5(b).hexdigest()\<close>, the
  value of \<open>CURRENT_TIMESTAMP\<close> and a storage fault of the engine, if one occurs.
\<close>

record environment =
  files :: "string \<Rightarrow> bytes option"
  md5_hexdigest :: "bytes \<Rightarrow> string"
  CURRENT_TIMESTAMP :: string
  storage_fault :: "error option"

definition text_value :: "string option \<Rightarrow> sql_value" where
  "text_value x = (case x of None \<Rightarrow> SNull | Some s \<Rightarrow> SText s)"

text \<open>\<open>', '.join(tags)\<close>.\<close>

fun py_join :: "string \<Rightarrow> string list \<Rightarrow> string" where
  "py_join sep [] = []"
| "py_join sep [x] = x"
| "py_join sep (x # y # ys) = x @ sep @ py_join sep (y # ys)"

text \<open>
  \<open>file_hash\<close> and \<open>file_data\<close> after the first \<open>if\<close>/\<open>elif\<close> of \<open>add_resource\<close>. The first
  branch tests \<open>file_data is None\<close>; the second tests the truth value of \<open>file_data\<close>, which
  is false for \<open>None\<close> and for the empty bytes object.
\<close>

definition hash_and_data :: "environment \<Rightarrow> add_args \<Rightarrow> string option \<times> bytes option" where
  "hash_and_data env args =
     (case (arg_file_path args, arg_file_data args) of
        (Some p, None) \<Rightarrow>
          (if p \<noteq> [] then
             (case files env p of
                Some file_content \<Rightarrow> (Some (md5_hexdigest env file_content), Some file_content)
              | None \<Rightarrow> (None, None))
           else (None, None))
      | (_, Some d) \<Rightarrow> (if d \<noteq> [] then (Some (md5_hexdigest env d), Some d) else (None, Some d))
      | (None, None) \<Rightarrow> (None, None))"

text \<open>
  The tuple of values \<open>add_resource\<close> binds to the placeholders of its INSERT, each under
  the name of its column; a list of tags is joined with \<open>', '\<close> first.
\<close>

definition insert_values :: "environment \<Rightarrow> add_args \<Rightarrow> (string \<times> sql_value) list" where
  "insert_values env args =
     (let (file_hash, file_data) = hash_and_data env args;
          tags = (case arg_tags args of
                    TagsList l \<Rightarrow> SText (py_join '', '' l)
                  | TagsStr s \<Rightarrow> SText s
                  | TagsNone \<Rightarrow> SNull)
      in [(''title'', text_value (arg_title args)),
          (''description'', text_value (arg_description args)),
          (''file_path'', text_value (arg_file_path args)),
          (''file_data'', (case file_data of None \<Rightarrow> SNull | Some d \<Rightarrow> SBlob d)),
          (''file_type'', text_value (arg_file_type args)),
          (''file_size'', (case arg_file_size args of None \<Rightarrow> SNull | Some n \<Rightarrow> SInt n)),
          (''file_hash'', text_value file_hash),
          (''category'', text_value (arg_category args)),
          (''tags'', tags),
          (''url'', text_value (arg_url args)),
          (''resource_type'', text_value (arg_resource_type args)),
          (''thumbnail_path'', text_value (arg_thumbnail_path args)),
          (''classifier_used'', text_value (arg_classifier_used args)),
          (''classification_confidence'', text_value (arg_classification_confidence args))])"

text \<open>
  \<open>Database.add_resource\<close>: the new state and either the exception that leaves the method
  or its return value, \<open>None\<close> or the new id. Only \<open>sqlite3.IntegrityError\<close> is caught.
  Nothing is committed when the statement raises.
\<close>

definition add_resource :: "environment \<Rightarrow> database \<Rightarrow> add_args \<Rightarrow> database \<times> (error + int option)" where
  "add_resource env db args =
     (case sqlite_insert (storage_fault env) (CURRENT_TIMESTAMP env) db (insert_values env args) of
        Inr (db', resource_id) \<Rightarrow> (db', Inr (Some resource_id))
      | Inl (IntegrityError msg) \<Rightarrow> (db, Inr None)
      | Inl e \<Rightarrow> (db, Inl e))"

subsection \<open>\<open>get_resource\<close>, \<open>delete_resource\<close>, \<open>search_resources\<close>\<close>




subsection \<open>The UPDATE statement of \<open>update_resource\<close>\<close>













subsection \<open>\<open>Database.update_resource\<close> and the PUT route\<close>




subsection \<open>The index invariant and example data\<close>

text \<open>
  The index is in lockstep with the table: row by row, \<open>resources_fts\<close> holds the id and the
  four indexed columns of \<open>resources\<close>.
\<close>

definition fts_in_sync :: "database \<Rightarrow> bool" where
  "fts_in_sync db =
     (map (\<lambda>(rowid, p). (SInt rowid, p)) (resources_fts db) =
      map (\<lambda>r. (col r ''id'', fts_projection r)) (resources db))"










section \<open>Termination of the statement parser\<close>






section \<open>Properties of the extension tables\<close>

text \<open>
  C7, as stated: the watcher's extension set is a superset of the validator's allow-list.
  It is not: \<open>.csv\<close> is allowed for uploads and is not a supported watcher extension.
\<close>

theorem C7_superset_counterexample:
  "\<not> (set ALLOWED_EXTENSIONS \<subseteq> set supported_extensions)"
  by (simp add: ALLOWED_EXTENSIONS_def supported_extensions_def)

text \<open>
  C7, amended: the watcher's extension set is a proper subset of the validator's upload
  allow-list, so the two overlap and are not identical.
\<close>

theorem C7_watcher_proper_subset:
  "set supported_extensions \<subset> set ALLOWED_EXTENSIONS"
proof -
  have sub: "set supported_extensions \<subseteq> set ALLOWED_EXTENSIONS"
    by (simp add: ALLOWED_EXTENSIONS_def supported_extensions_def)
  have "''.csv'' \<in> set ALLOWED_EXTENSIONS"
    by (simp add: ALLOWED_EXTENSIONS_def)
  moreover have "''.csv'' \<notin> set supported_extensions"
    by (simp add: supported_extensions_def)
  ultimately show ?thesis using sub by blast
qed

section \<open>Properties of the keyword classifier\<close>

lemma py_in_iff_sublist: "py_in kw text \<longleftrightarrow> sublist kw text"
  by (induction "text") (auto simp: sublist_Cons_right)

lemma classify_three:
  assumes ck: "category_keywords self = [(n1, k1), (n2, k2), (n3, k3)]"
    and d: "n1 \<noteq> n2" "n1 \<noteq> n3" "n2 \<noteq> n3"
  shows "category (classify_keywords self text) =
           (if keyword_score k1 text = 0 \<and> keyword_score k2 text = 0 \<and> keyword_score k3 text = 0
            then None
            else if keyword_score k2 text \<le> keyword_score k1 text \<and>
                    keyword_score k3 text \<le> keyword_score k1 text then Some n1
            else if keyword_score k3 text \<le> keyword_score k2 text then Some n2 else Some n3)"
    and "confidence (classify_keywords self text) =
           (if keyword_score k1 text = 0 \<and> keyword_score k2 text = 0 \<and> keyword_score k3 text = 0
            then ''low'' else ''medium'')"
  using d unfolding classify_keywords_def Let_def ck
  by (auto simp add: py_max_def scores_get_def)

lemma init_keywords:
  "\<exists>k1 k2 k3. category_keywords (ResourceClassifier_init getenv) =
      [(''Blue Team'', k1), (''Red Team'', k2), (''Threat Intelligence'', k3)]"
  by (simp add: ResourceClassifier_init_def)

text \<open>
  C3: with \<open>b\<close>, \<open>r\<close>, \<open>t\<close> the keyword counts of Blue Team, Red Team and Threat
  Intelligence in the text, \<open>_classify_keywords\<close> returns no category and confidence
  \<open>low\<close> when all three are zero; otherwise confidence is \<open>medium\<close> and the category is
  the one with the highest count, Blue Team winning every tie it is part of and Red Team
  winning a tie with Threat Intelligence.
\<close>

theorem C3_classify_keywords_argmax:
  "let self = ResourceClassifier_init getenv;
       b = category_score self ''Blue Team'' text;
       r = category_score self ''Red Team'' text;
       t = category_score self ''Threat Intelligence'' text;
       res = classify_keywords self text
   in (b = 0 \<and> r = 0 \<and> t = 0 \<longrightarrow> category res = None \<and> confidence res = ''low'') \<and>
      (0 < b \<and> r \<le> b \<and> t \<le> b \<longrightarrow>
         category res = Some ''Blue Team'' \<and> confidence res = ''medium'') \<and>
      (b < r \<and> t \<le> r \<longrightarrow>
         category res = Some ''Red Team'' \<and> confidence res = ''medium'') \<and>
      (b < t \<and> r < t \<longrightarrow>
         category res = Some ''Threat Intelligence'' \<and> confidence res = ''medium'')"
proof -
  obtain k1 k2 k3 where ck: "category_keywords (ResourceClassifier_init getenv) =
      [(''Blue Team'', k1), (''Red Team'', k2), (''Threat Intelligence'', k3)]"
    using init_keywords by blast
  have d: "''Blue Team'' \<noteq> ''Red Team''" "''Blue Team'' \<noteq> ''Threat Intelligence''"
    "''Red Team'' \<noteq> ''Threat Intelligence''" by simp_all
  note c = classify_three[OF ck d, of "text"]
  have s: "category_score (ResourceClassifier_init getenv) ''Blue Team'' text = keyword_score k1 text"
    "category_score (ResourceClassifier_init getenv) ''Red Team'' text = keyword_score k2 text"
    "category_score (ResourceClassifier_init getenv) ''Threat Intelligence'' text = keyword_score k3 text"
    unfolding category_score_def ck by simp_all
  show ?thesis unfolding Let_def s c by auto
qed

text \<open>
  The text \<open>siem and exploit\<close> has one Blue Team keyword and one Red Team keyword and no
  Threat Intelligence keyword: the tie goes to Blue Team.
\<close>

theorem C3_classify_keywords_argmax_witness:
  "category_score (ResourceClassifier_init (\<lambda>_. None)) ''Blue Team'' ''siem and exploit'' = 1 \<and>
   category_score (ResourceClassifier_init (\<lambda>_. None)) ''Red Team'' ''siem and exploit'' = 1 \<and>
   category_score (ResourceClassifier_init (\<lambda>_. None)) ''Threat Intelligence'' ''siem and exploit'' = 0 \<and>
   category (classify_keywords (ResourceClassifier_init (\<lambda>_. None)) ''siem and exploit'') = Some ''Blue Team'' \<and>
   confidence (classify_keywords (ResourceClassifier_init (\<lambda>_. None)) ''siem and exploit'') = ''medium''"
proof -
  have b: "category_score (ResourceClassifier_init (\<lambda>_. None)) ''Blue Team'' ''siem and exploit'' = 1"
    by (simp add: category_score_def ResourceClassifier_init_def keyword_score_def)
  have r: "category_score (ResourceClassifier_init (\<lambda>_. None)) ''Red Team'' ''siem and exploit'' = 1"
    by (simp add: category_score_def ResourceClassifier_init_def keyword_score_def)
  have t: "category_score (ResourceClassifier_init (\<lambda>_. None)) ''Threat Intelligence'' ''siem and exploit'' = 0"
    by (simp add: category_score_def ResourceClassifier_init_def keyword_score_def)
  show ?thesis
    using C3_classify_keywords_argmax[of "\<lambda>_. None" "''siem and exploit''"]
    unfolding Let_def b r t by simp
qed

text \<open>
  C8: the result of \<open>_classify_keywords\<close> is a function of the text alone. The classifier
  object is built by \<open>__init__\<close> from the process environment; whatever the environment of
  two invocations (API keys present or not), the same text gives the same category, tags
  and confidence.
\<close>

theorem C8_classify_keywords_deterministic:
  "classify_keywords (ResourceClassifier_init getenv1) text =
   classify_keywords (ResourceClassifier_init getenv2) text"
  by (simp add: classify_keywords_def ResourceClassifier_init_def)

section \<open>Properties of the validator\<close>




lemma cleaned_Nil [simp]: "cleaned_name [] = []"
  by (simp add: cleaned_name_def)














lemma count_replace_char:
  "count_list (replace_char c rep s) x =
     (if x = c then 0 else count_list s x) + count_list s c * count_list rep x"
  unfolding replace_char_def by (induction s) auto

lemma count_html_escape_semicolon:
  "count_list (html_escape s) CHR '';'' =
     count_list s CHR '';'' + count_list s CHR ''&'' + count_list s CHR ''<'' +
     count_list s CHR ''>'' + count_list s (CHR 0x22) + count_list s (CHR 0x27)"
  unfolding html_escape_def by (simp add: count_replace_char)

lemma count_dropWhile:
  "\<not> P x \<Longrightarrow> count_list (dropWhile P s) x = count_list s x"
  by (induction s) auto

lemma count_rev: "count_list (rev s) x = count_list s x"
  by (induction s) auto

lemma count_py_strip:
  "\<not> py_isspace x \<Longrightarrow> count_list (py_strip s) x = count_list s x"
  unfolding py_strip_def by (simp add: count_rev count_dropWhile)

lemma count_pos: "c \<in> set s \<Longrightarrow> 0 < count_list s c"
  by (induction s) auto

lemma escape_strip_differs:
  assumes "c \<in> set url" and "c \<in> {CHR ''&'', CHR ''<'', CHR ''>'', CHR 0x22, CHR 0x27}"
  shows "html_escape (py_strip url) \<noteq> url"
proof
  assume eq: "html_escape (py_strip url) = url"
  have sp: "\<not> py_isspace CHR '';''" "\<not> py_isspace CHR ''&''" "\<not> py_isspace CHR ''<''"
    "\<not> py_isspace CHR ''>''" "\<not> py_isspace (CHR 0x22)" "\<not> py_isspace (CHR 0x27)"
    by (simp_all add: py_isspace_def)
  have "count_list (html_escape (py_strip url)) CHR '';'' =
     count_list url CHR '';'' + count_list url CHR ''&'' + count_list url CHR ''<'' +
     count_list url CHR ''>'' + count_list url (CHR 0x22) + count_list url (CHR 0x27)"
    unfolding count_html_escape_semicolon by (simp add: count_py_strip sp)
  then have "count_list url CHR ''&'' + count_list url CHR ''<'' +
     count_list url CHR ''>'' + count_list url (CHR 0x22) + count_list url (CHR 0x27) = 0"
    unfolding eq by simp
  moreover have "0 < count_list url c" using assms(1) by (rule count_pos)
  ultimately show False using assms(2) by auto
qed

lemma validate_url_result:
  assumes "validate_url urlparse url = Inr r" and "url \<noteq> []"
  shows "r = take MAX_URL_LENGTH (html_escape (py_strip url))"
proof -
  have s: "sanitize_string url (Some MAX_URL_LENGTH) False = take MAX_URL_LENGTH (html_escape (py_strip url))"
    by (simp add: sanitize_string_def MAX_URL_LENGTH_def Let_def)
  show ?thesis
    using assms unfolding validate_url_def Let_def s
    by (auto split: sum.splits if_splits option.splits)
qed

lemma replace_char_absent: "c \<notin> set s \<Longrightarrow> replace_char c rep s = s"
  unfolding replace_char_def by (induction s) auto

lemma replace_char_append:
  "replace_char c rep (s @ t) = replace_char c rep s @ replace_char c rep t"
  unfolding replace_char_def by simp

lemma py_strip_id:
  assumes "s \<noteq> []" "\<not> py_isspace (hd s)" "\<not> py_isspace (last s)"
  shows "py_strip s = s"
proof -
  have 1: "dropWhile py_isspace s = s" using assms(1,2) by (cases s) simp_all
  have 2: "dropWhile py_isspace (rev s) = rev s"
    using assms(1,3) by (cases "rev s") (simp_all add: last_rev[symmetric] hd_rev)
  show ?thesis unfolding py_strip_def 1 2 by simp
qed

lemma py_in_set: "py_in kw s \<Longrightarrow> set kw \<subseteq> set s"
  unfolding py_in_iff_sublist by (rule set_mono_sublist)

text \<open>
  C10, amended. \<open>validate_url\<close> trims and HTML-escapes its input before the URL is parsed
  or checked. For every URL that contains one of the characters \<open>&\<close>, \<open><\<close>, \<open>>\<close>, the double
  quote or the apostrophe, and whose trimmed and escaped form has at most 2000 characters
  (so that it is not truncated), the value returned on success is that escaped form and
  differs from the input.
\<close>

theorem C10_validate_url_escapes:
  assumes "validate_url urlparse url = Inr r"
    and "\<exists>c \<in> set url. c \<in> {CHR ''&'', CHR ''<'', CHR ''>'', CHR 0x22, CHR 0x27}"
    and "length (html_escape (py_strip url)) \<le> MAX_URL_LENGTH"
  shows "r = html_escape (py_strip url) \<and> r \<noteq> url"
proof -
  from assms(2) have ne: "url \<noteq> []" by auto
  have "r = take MAX_URL_LENGTH (html_escape (py_strip url))"
    using validate_url_result[OF assms(1) ne] .
  then have r: "r = html_escape (py_strip url)" using assms(3) by simp
  moreover have "html_escape (py_strip url) \<noteq> url"
    using assms(2) escape_strip_differs by blast
  ultimately show ?thesis by simp
qed

text \<open>A query string with an ampersand: accepted, and returned with \<open>&amp;\<close> in its place.\<close>

theorem C10_validate_url_escapes_witness:
  "validate_url urlsplit_scheme ''http://a.b/?x=1&y=2'' = Inr ''http://a.b/?x=1&amp;y=2'' \<and>
   ''http://a.b/?x=1&amp;y=2'' \<noteq> ''http://a.b/?x=1&y=2''"
proof -
  have v: "validate_url urlsplit_scheme ''http://a.b/?x=1&y=2'' = Inr ''http://a.b/?x=1&amp;y=2''"
    by code_simp
  have c: "\<exists>c \<in> set ''http://a.b/?x=1&y=2''. c \<in> {CHR ''&'', CHR ''<'', CHR ''>'', CHR 0x22, CHR 0x27}"
    by simp
  have e: "html_escape (py_strip ''http://a.b/?x=1&y=2'') = ''http://a.b/?x=1&amp;y=2''"
    by code_simp
  have l: "length (html_escape (py_strip ''http://a.b/?x=1&y=2'')) \<le> MAX_URL_LENGTH"
    unfolding e by (simp add: MAX_URL_LENGTH_def)
  have "''http://a.b/?x=1&amp;y=2'' \<noteq> ''http://a.b/?x=1&y=2''"
    using C10_validate_url_escapes[OF v c l] by (rule conjunct2)
  then show ?thesis using v by (rule conjI[rotated])
qed

text \<open>
  C10, as stated, fails when the escaped text is truncated. A URL of 1999 letters followed
  by \<open>&\<close> is escaped to 1999 letters followed by \<open>&amp;\<close>, and the cut at 2000 characters
  gives the input back: the URL is accepted and returned verbatim.
\<close>

theorem C10_validate_url_counterexample:
  "CHR ''&'' \<in> set (replicate 1999 (CHR ''a'') @ ''&'') \<and>
   validate_url urlsplit_scheme (replicate 1999 (CHR ''a'') @ ''&'') =
     Inr (replicate 1999 (CHR ''a'') @ ''&'')"
proof -
  let ?u = "replicate 1999 (CHR ''a'') @ ''&''"
  have set_u: "set ?u = {CHR ''a'', CHR ''&''}" by auto
  have strip: "py_strip ?u = ?u"
    by (rule py_strip_id) (simp_all add: py_isspace_def hd_append)
  have esc: "html_escape ?u = replicate 1999 (CHR ''a'') @ ''&amp;''"
    unfolding html_escape_def replace_char_append
    by (simp add: replace_char_absent) (simp add: replace_char_def)
  have san: "sanitize_string ?u (Some MAX_URL_LENGTH) False = ?u"
    unfolding sanitize_string_def Let_def strip esc by (simp add: MAX_URL_LENGTH_def)
  have "CHR '':'' \<notin> set (filter (\<lambda>c. (of_char c :: nat) \<notin> {9, 10, 13}) (dropWhile (\<lambda>c. (of_char c :: nat) \<le> 32) ?u))"
    using set_dropWhileD[of "CHR '':''" _ ?u] set_u by auto
  then have sch: "urlsplit_scheme ?u = Inr []"
    unfolding urlsplit_scheme_def Let_def by simp
  have low: "py_lower ?u = ?u"
    by (simp add: py_lower_def py_lower_char_def)
  have nopat: "\<not> py_in pattern ?u" if "CHR '':'' \<in> set pattern" for pattern
    using py_in_set[of pattern ?u] that set_u by auto
  have find: "find (\<lambda>pattern. py_in pattern (py_lower ?u)) dangerous_patterns = None"
    unfolding low dangerous_patterns_def by (simp add: nopat)
  have "validate_url urlsplit_scheme ?u = Inr ?u"
    unfolding validate_url_def Let_def san sch find by simp
  then show ?thesis by simp
qed


section \<open>Properties of the catalogue store\<close>

subsection \<open>Creating a resource\<close>

lemma col_new_row:
  "col (new_row ts i vals) c =
     (if c = ''id'' then SInt i
      else if c = ''created_at'' \<or> c = ''updated_at'' then SText ts
      else if c \<in> set resource_columns then col vals c else SNull)"
proof -
  have "map_of (map (\<lambda>c. (c, f c)) cs) c = (if c \<in> set cs then Some (f c) else None)"
    for f :: "string \<Rightarrow> sql_value" and cs
    by (induction cs) auto
  then show ?thesis
    unfolding new_row_def col_def by (simp add: resource_columns_def)
qed

lemma sqlite_insert_Inr:
  assumes "sqlite_insert fault ts db vals = Inr (db', i)"
  shows "fault = None" and "col vals ''title'' \<noteq> SNull" and "col vals ''resource_type'' \<noteq> SNull"
    and "col vals ''file_hash'' \<noteq> SNull \<Longrightarrow> \<forall>r \<in> set (resources db). col r ''file_hash'' \<noteq> col vals ''file_hash''"
    and "i = next_id db"
    and "db' = db \<lparr> resources := resources db @ [new_row ts i vals],
                     sqlite_sequence := i,
                     resources_fts := resources_fts db @ [(i, fts_projection (new_row ts i vals))] \<rparr>"
  using assms unfolding sqlite_insert_def new_row_def Let_def
  by (auto split: option.splits if_splits)

lemma add_resource_twice:
  assumes h: "fst (hash_and_data env args) = Some h"
    and ok: "add_resource env db args = (db1, Inr (Some i))"
  shows "add_resource env db1 args = (db1, Inr None)"
    and "\<exists>r \<in> set (resources db1). col r ''id'' = SInt i \<and> col r ''file_hash'' = SText h"
proof -
  let ?vals = "insert_values env args"
  let ?ts = "CURRENT_TIMESTAMP env"
  have ins: "sqlite_insert (storage_fault env) ?ts db ?vals = Inr (db1, i)"
    using ok unfolding add_resource_def
    by (auto split: sum.splits error.splits)
  note f = sqlite_insert_Inr[OF ins]
  have hv: "col ?vals ''file_hash'' = SText h"
    using h by (cases "hash_and_data env args") (simp add: insert_values_def col_def text_value_def)
  have new: "new_row ?ts i ?vals \<in> set (resources db1)"
    unfolding f(6) by simp
  have newh: "col (new_row ?ts i ?vals) ''file_hash'' = SText h"
    unfolding col_new_row using hv by (simp add: resource_columns_def)
  have newi: "col (new_row ?ts i ?vals) ''id'' = SInt i"
    unfolding col_new_row by simp
  show "\<exists>r \<in> set (resources db1). col r ''id'' = SInt i \<and> col r ''file_hash'' = SText h"
    using new newh newi by blast
  have "sqlite_insert (storage_fault env) ?ts db1 ?vals =
          Inl (IntegrityError ''UNIQUE constraint failed: resources.file_hash'')"
    unfolding sqlite_insert_def using f(1,2,3) hv new newh
    by auto
  then show "add_resource env db1 args = (db1, Inr None)"
    unfolding add_resource_def by simp
qed

lemma insert_keeps_sync:
  assumes "fts_in_sync db" and "add_resource env db args = (db', res)"
  shows "fts_in_sync db'"
proof (cases "\<exists>i. res = Inr (Some i)")
  case False
  then have "db' = db"
    using assms(2) unfolding add_resource_def
    by (auto split: sum.splits error.splits)
  then show ?thesis using assms(1) by simp
next
  case True
  then obtain i where r: "res = Inr (Some i)" by blast
  then have ins: "sqlite_insert (storage_fault env) (CURRENT_TIMESTAMP env) db (insert_values env args) = Inr (db', i)"
    using assms(2) unfolding add_resource_def
    by (auto split: sum.splits error.splits)
  note f = sqlite_insert_Inr[OF ins]
  show ?thesis
    using assms(1) unfolding fts_in_sync_def f(6) by (simp add: col_new_row)
qed

text \<open>
  A payload that is hashed is deduplicated, whether it came from \<open>file_data\<close> or was read
  from \<open>file_path\<close>: this is \<open>add_resource_twice\<close>. The branch that reads the file hashes
  an empty file too, so an empty file imported twice by the watcher is refused the second
  time.
\<close>

lemma empty_file_from_disk_is_deduplicated:
  "let env = \<lparr> files = (\<lambda>p. if p = ''empty.txt'' then Some [] else None), md5_hexdigest = md5,
                 CURRENT_TIMESTAMP = ts, storage_fault = None \<rparr>;
       args = (default_args (Some ''empty'')) \<lparr> arg_file_path := Some ''empty.txt'' \<rparr>;
       first = add_resource env init_db args;
       second = add_resource env (fst first) args
   in snd first = Inr (Some 1) \<and> snd second = Inr None \<and>
      map (\<lambda>r. col r ''file_hash'') (resources (fst second)) = [SText (md5 [])]"
  by code_simp

text \<open>
  C1 holds for every payload that \<open>add_resource\<close> hashes, and fails for the empty payload
  given as \<open>file_data\<close>: the test \<open>elif file_data\<close> is false for \<open>b''\<close>, no hash is computed,
  \<open>file_hash\<close> stays \<open>NULL\<close>, and \<open>UNIQUE\<close> never rejects \<open>NULL\<close>. Uploading the same empty
  file twice succeeds twice, with the ids 1 and 2 on a new database.
\<close>

theorem C1_empty_payload_stored_twice:
  "let env = \<lparr> files = fs, md5_hexdigest = md5, CURRENT_TIMESTAMP = ts, storage_fault = None \<rparr>;
       args = (default_args (Some ''empty''))
                \<lparr> arg_file_path := Some ''empty.txt'', arg_file_data := Some [] \<rparr>;
       first = add_resource env init_db args;
       second = add_resource env (fst first) args
   in snd first = Inr (Some 1) \<and> snd second = Inr (Some 2) \<and>
      map (\<lambda>r. col r ''file_hash'') (resources (fst second)) = [SNull, SNull]"
  by code_simp

lemma add_resource_fault_propagates:
  assumes "storage_fault env = Some e" and "\<And>msg. e \<noteq> IntegrityError msg"
  shows "add_resource env db args = (db, Inl e)"
  using assms
  by (cases e) (auto simp add: add_resource_def sqlite_insert_def)

text \<open>
  C2 holds for the faults that are not constraint violations
  (\<open>add_resource_fault_propagates\<close>) and fails for the \<open>NOT NULL\<close> violation it names:
  \<open>except sqlite3.IntegrityError\<close> catches every constraint violation. With \<open>title=None\<close>
  and no storage fault, \<open>add_resource\<close> returns \<open>None\<close>, raises nothing and leaves the
  database as it was.
\<close>

theorem C2_not_null_violation_returns_None:
  "add_resource \<lparr> files = fs, md5_hexdigest = md5, CURRENT_TIMESTAMP = ts, storage_fault = None \<rparr>
     db (default_args None) = (db, Inr None)"
  by code_simp

subsection \<open>Deleting a resource and the search index\<close>






subsection \<open>Updating a resource\<close>















subsection \<open>The round trip of create, get and update\<close>



















end
